theory Spec2Isabelle
  imports Complex_Main "HOL-Library.Word"
begin

section \<open>Numbers, vectors and irregular outcomes\<close>

text \<open>
  The viewer computes with Python floats and numpy float64 arrays of length three. The
  embedding reads every finite float as the real number it denotes, so rounding is left
  out and \<open>cos\<close>, \<open>sin\<close>, \<open>pi\<close> and the square root are the mathematical ones.

  Division is where the two worlds part. A Python float division by zero raises
  \<open>ZeroDivisionError\<close>. A numpy division by zero raises nothing: it emits a
  RuntimeWarning and stores nan (or inf) in the array, after which the pose is no triple
  of numbers any more. Neither outcome is a real number, so both are values of the type
  \<open>fault\<close>, and every operation that can reach one returns a sum with \<open>fault\<close> on the
  left. The exceptions that texture generation raises are values of the same type.
\<close>

datatype fault =
    ZeroDivisionError   \<comment> \<open>raised by Python's float division\<close>
  | ValueError          \<comment> \<open>raised by the dimension check of texture generation\<close>
  | RuntimeError        \<comment> \<open>what texture generation turns every caught exception into\<close>
  | LibraryError        \<comment> \<open>any exception raised inside the external noise library\<close>
  | NotANumber          \<comment> \<open>numpy divided by 0.0: the array holds nan, nothing is raised\<close>

type_synonym vec3 = "real \<times> real \<times> real"

definition np_zeros3 :: vec3 where
  "np_zeros3 = (0, 0, 0)"

fun vadd :: "vec3 \<Rightarrow> vec3 \<Rightarrow> vec3" where
  "vadd (a1, a2, a3) (b1, b2, b3) = (a1 + b1, a2 + b2, a3 + b3)"

fun vscale :: "vec3 \<Rightarrow> real \<Rightarrow> vec3" where
  "vscale (a1, a2, a3) k = (a1 * k, a2 * k, a3 * k)"

fun vdiv :: "vec3 \<Rightarrow> real \<Rightarrow> vec3" where
  "vdiv (a1, a2, a3) k = (a1 / k, a2 / k, a3 / k)"

fun np_cross :: "vec3 \<Rightarrow> vec3 \<Rightarrow> vec3" where
  "np_cross (a1, a2, a3) (b1, b2, b3) =
     (a2 * b3 - a3 * b2, a3 * b1 - a1 * b3, a1 * b2 - a2 * b1)"

fun linalg_norm :: "vec3 \<Rightarrow> real" where
  "linalg_norm (a1, a2, a3) = sqrt (a1\<^sup>2 + a2\<^sup>2 + a3\<^sup>2)"

definition np_clip :: "real \<Rightarrow> real \<Rightarrow> real \<Rightarrow> real" where
  \<comment> \<open>\<open>np.clip(a, a_min, a_max)\<close> is \<open>minimum(a_max, maximum(a, a_min))\<close>\<close>
  "np_clip a a_min a_max = min a_max (max a a_min)"

section \<open>config.py: the settings the camera and the planet read\<close>

record Config =
  initial_distance :: real
  max_distance :: real
  mouse_sensitivity :: real
  zoom_speed :: real
  camera_speed :: real
  camera_boost_factor :: real
  planet_radius :: real
  texture_width :: int
  texture_height :: int

definition default_config :: Config where
  "default_config =
     \<lparr> initial_distance = 30, max_distance = 50, mouse_sensitivity = 5 / 1000,
       zoom_speed = 1 / 2, camera_speed = 1 / 10, camera_boost_factor = 2,
       planet_radius = 10, texture_width = 512, texture_height = 256 \<rparr>"

section \<open>camera.py\<close>

text \<open>
  The class \<open>Camera\<close> is a record of its attributes, and each method is a function from
  the camera before the call to the camera after it. The methods keep their names; the
  private ones lose the leading underscore. The mode is the string the code stores. Two
  methods divide a numpy array by a norm (\<open>move\<close>, \<open>check_collision\<close>) and one divides
  two Python floats (\<open>_update_transition\<close>); each has the zero divisor as a branch.
\<close>

record Camera =
  config :: Config
  distance :: real
  yaw :: real
  pitch :: real
  position :: vec3
  target :: vec3
  up :: vec3
  mode :: string
  speed :: real
  boost_factor :: real
  transition_progress :: real
  transition_duration :: real
  start_position :: vec3
  start_target :: vec3
  end_position :: vec3
  end_target :: vec3

definition Camera_init :: "Config \<Rightarrow> Camera" where
  "Camera_init cfg =
     \<lparr> config = cfg,
       distance = initial_distance cfg,
       yaw = 0,
       pitch = 0,
       position = (0, 0, initial_distance cfg),
       target = np_zeros3,
       up = (0, 1, 0),
       mode = ''orbit'',
       speed = camera_speed cfg,
       boost_factor = camera_boost_factor cfg,
       transition_progress = 1,
       transition_duration = 1,
       start_position = (0, 0, initial_distance cfg),
       start_target = np_zeros3,
       end_position = (0, 0, initial_distance cfg),
       end_target = np_zeros3 \<rparr>"

definition update_position :: "Camera \<Rightarrow> Camera" where
  "update_position c =
     c\<lparr> position :=
          (distance c * cos (pitch c) * sin (yaw c),
           distance c * sin (pitch c),
           distance c * cos (pitch c) * cos (yaw c)) \<rparr>"

definition get_forward_vector :: "Camera \<Rightarrow> vec3" where
  "get_forward_vector c =
     (cos (pitch c) * sin (yaw c), sin (pitch c), cos (pitch c) * cos (yaw c))"

definition update_orbit :: "Camera \<Rightarrow> real \<Rightarrow> real \<Rightarrow> Camera" where
  "update_orbit c dx dy =
     (let c1 = c\<lparr> yaw := yaw c + dx * mouse_sensitivity (config c) \<rparr>;
          c2 = c1\<lparr> pitch := pitch c1 - dy * mouse_sensitivity (config c1) \<rparr>;
          c3 = c2\<lparr> pitch := np_clip (pitch c2) (- pi / 2 + 1 / 10) (pi / 2 - 1 / 10) \<rparr>
      in update_position c3)"

definition update_free :: "Camera \<Rightarrow> real \<Rightarrow> real \<Rightarrow> Camera" where
  "update_free c dx dy =
     (let c1 = c\<lparr> yaw := yaw c - dx * mouse_sensitivity (config c) \<rparr>;
          c2 = c1\<lparr> pitch := pitch c1 - dy * mouse_sensitivity (config c1) \<rparr>;
          c3 = c2\<lparr> pitch := np_clip (pitch c2) (- pi / 2 + 1 / 10) (pi / 2 - 1 / 10) \<rparr>;
          forward = get_forward_vector c3
      in c3\<lparr> target := vadd (position c3) forward \<rparr>)"

definition ease_in_out_cubic :: "real \<Rightarrow> real" where
  "ease_in_out_cubic t =
     (if t < 1 / 2 then 4 * t * t * t else 1 - (- 2 * t + 2) ^ 3 / 2)"

definition update_transition :: "Camera \<Rightarrow> real \<Rightarrow> fault + Camera" where
  "update_transition c dt =
     (if transition_progress c < 1 then
        if transition_duration c = 0 then Inl ZeroDivisionError
        else
          let c1 = c\<lparr> transition_progress :=
                        min 1 (transition_progress c + dt / transition_duration c) \<rparr>;
              t = ease_in_out_cubic (transition_progress c1);
              c2 = c1\<lparr> position :=
                         vadd (vscale (start_position c1) (1 - t)) (vscale (end_position c1) t) \<rparr>
          in Inr (c2\<lparr> target :=
                         vadd (vscale (start_target c2) (1 - t)) (vscale (end_target c2) t) \<rparr>)
      else Inr c)"

definition update :: "Camera \<Rightarrow> real \<Rightarrow> real \<Rightarrow> real \<Rightarrow> fault + Camera" where
  "update c dx dy dt =
     update_transition
       (if mode c = ''orbit'' then update_orbit c dx dy
        else if mode c = ''free'' then update_free c dx dy
        else c)
       dt"

definition move :: "Camera \<Rightarrow> real \<Rightarrow> real \<Rightarrow> real \<Rightarrow> bool \<Rightarrow> fault + Camera" where
  "move c forward right upward boost =
     (if mode c \<noteq> ''free'' then Inr c
      else
        let speed' = speed c * (if boost then boost_factor c else 1);
            forward_vec = get_forward_vector c;
            right_vec = np_cross forward_vec (up c)
        in if linalg_norm right_vec = 0 then Inl NotANumber
           else
             let right_vec' = vdiv right_vec (linalg_norm right_vec);
                 movement = vadd (vadd (vscale forward_vec forward) (vscale right_vec' right))
                                 (vscale (up c) upward);
                 c1 = c\<lparr> position := vadd (position c) (vscale movement speed') \<rparr>
             in Inr (c1\<lparr> target := vadd (target c1) (vscale movement speed') \<rparr>))"

definition zoom :: "Camera \<Rightarrow> real \<Rightarrow> fault + Camera" where
  "zoom c amount =
     (if mode c = ''orbit'' then
        let c1 = c\<lparr> distance := distance c - amount * zoom_speed (config c) \<rparr>;
            c2 = c1\<lparr> distance := np_clip (distance c1) (planet_radius (config c1) + 1 / 10)
                                          (max_distance (config c1)) \<rparr>
        in Inr (update_position c2)
      else if mode c = ''free'' then move c (amount * zoom_speed (config c)) 0 0 False
      else Inr c)"

definition toggle_mode :: "Camera \<Rightarrow> Camera" where
  "toggle_mode c =
     (let c' =
        (if mode c = ''orbit'' then
           let c1 = c\<lparr> mode := ''free'' \<rparr>;
               c2 = c1\<lparr> end_position := position c1 \<rparr>
           in c2\<lparr> end_target := target c2 \<rparr>
         else
           let c1 = c\<lparr> mode := ''orbit'' \<rparr>;
               c2 = c1\<lparr> distance := initial_distance (config c1) \<rparr>;
               c3 = c2\<lparr> yaw := 0 \<rparr>;
               c4 = c3\<lparr> pitch := 0 \<rparr>;
               c5 = update_position c4;
               c6 = c5\<lparr> end_position := position c5 \<rparr>
           in c6\<lparr> end_target := np_zeros3 \<rparr>);
          c'' = c'\<lparr> start_position := position c' \<rparr>;
          c''' = c''\<lparr> start_target := target c'' \<rparr>
      in c'''\<lparr> transition_progress := 0 \<rparr>)"

definition check_collision :: "Camera \<Rightarrow> real \<Rightarrow> fault + Camera" where
  "check_collision c radius =
     (let distance_to_center = linalg_norm (position c)
      in if distance_to_center < radius + 1 / 10 then
           if distance_to_center = 0 then Inl NotANumber
           else
             let direction = vdiv (position c) distance_to_center;
                 c1 = c\<lparr> position := vscale direction (radius + 1 / 10) \<rparr>
             in Inr (if mode c1 = ''orbit'' then c1\<lparr> distance := radius + 1 / 10 \<rparr> else c1)
         else Inr c)"

section \<open>Sequences of public operations\<close>

text \<open>
  The viewer's loop calls the five public methods of the camera in an order decided by the
  user's input. A sequence of such calls is a list of \<open>op\<close>; running it stops at the
  first fault.
\<close>

datatype op =
    Update real real real
  | Move real real real bool
  | Zoom real
  | ToggleMode
  | CheckCollision real

fun apply_op :: "Camera \<Rightarrow> op \<Rightarrow> fault + Camera" where
  "apply_op c (Update dx dy dt) = update c dx dy dt"
| "apply_op c (Move forward right upward boost) = move c forward right upward boost"
| "apply_op c (Zoom amount) = zoom c amount"
| "apply_op c ToggleMode = Inr (toggle_mode c)"
| "apply_op c (CheckCollision radius) = check_collision c radius"

fun run :: "Camera \<Rightarrow> op list \<Rightarrow> fault + Camera" where
  "run c [] = Inr c"
| "run c (x # xs) = (case apply_op c x of Inl e \<Rightarrow> Inl e | Inr c' \<Rightarrow> run c' xs)"

section \<open>texture\_generator.py\<close>

text \<open>
  The generator calls two things that are not code of the repository: \<open>snoise3\<close> of the
  noise library and the global random generator of numpy. Both are parameters here. The
  random generator is a state \<open>'g\<close> with the two draws the code makes, each returning
  three numbers and the next state, so that a call which draws nothing returns the state
  it was given.
\<close>

record 'g externals =
  snoise3 :: "real \<Rightarrow> real \<Rightarrow> real \<Rightarrow> nat \<Rightarrow> real \<Rightarrow> real \<Rightarrow> fault + real"
  random_randint :: "int \<Rightarrow> int \<Rightarrow> 'g \<Rightarrow> (int \<times> int \<times> int) \<times> 'g"
  random_uniform :: "real \<Rightarrow> real \<Rightarrow> 'g \<Rightarrow> vec3 \<times> 'g"

type_synonym pixel = "8 word \<times> 8 word \<times> 8 word"

fun collect :: "('a \<Rightarrow> fault + 'b) \<Rightarrow> 'a list \<Rightarrow> fault + 'b list" where
  "collect f [] = Inr []"
| "collect f (x # xs) =
     (case f x of
        Inl e \<Rightarrow> Inl e
      | Inr v \<Rightarrow> (case collect f xs of Inl e \<Rightarrow> Inl e | Inr vs \<Rightarrow> Inr (v # vs)))"

definition create_seamless_noise ::
  "'g externals \<Rightarrow> int \<Rightarrow> int \<Rightarrow> real \<Rightarrow> nat \<Rightarrow> real \<Rightarrow> real \<Rightarrow> fault + real list list" where
  "create_seamless_noise ext width height scale octaves persistence lacunarity =
     (if height < 0 \<or> width < 0 then Inl ValueError
      else
        collect (\<lambda>y.
          collect (\<lambda>x.
            let theta = real x / real_of_int width * 2 * pi;
                phi = real y / real_of_int height * pi;
                x3 = cos theta * sin phi;
                y3 = sin theta * sin phi;
                z3 = cos phi
            in snoise3 ext (x3 * scale) (y3 * scale) (z3 * scale) octaves persistence lacunarity)
          [0 ..< nat width])
        [0 ..< nat height])"

definition to_uint8 :: "real \<Rightarrow> 8 word" where
  \<comment> \<open>\<open>astype(np.uint8)\<close> of a float already clipped to [0, 255]: the fraction is dropped\<close>
  "to_uint8 x = word_of_int \<lfloor>x\<rfloor>"

definition colored_texel :: "'g externals \<Rightarrow> int \<times> int \<times> int \<Rightarrow> int \<times> int \<times> int \<Rightarrow> real \<Rightarrow> 'g \<Rightarrow> pixel \<times> 'g" where
  "colored_texel ext color1 color2 v g =
     (case (color1, color2) of ((r1, g1, b1), (r2, g2, b2)) \<Rightarrow>
        let color = (real_of_int r1 * (1 - v) + real_of_int r2 * v,
                     real_of_int g1 * (1 - v) + real_of_int g2 * v,
                     real_of_int b1 * (1 - v) + real_of_int b2 * v)
        in case random_uniform ext (99 / 100) (101 / 100) g of ((v1, v2, v3), g') \<Rightarrow>
             (case color of (cr, cg, cb) \<Rightarrow>
                ((to_uint8 (np_clip (cr * v1) 0 255),
                  to_uint8 (np_clip (cg * v2) 0 255),
                  to_uint8 (np_clip (cb * v3) 0 255)), g')))"

fun colored_row :: "'g externals \<Rightarrow> int \<times> int \<times> int \<Rightarrow> int \<times> int \<times> int \<Rightarrow> real list \<Rightarrow> 'g \<Rightarrow> pixel list \<times> 'g" where
  "colored_row ext color1 color2 [] g = ([], g)"
| "colored_row ext color1 color2 (v # vs) g =
     (case colored_texel ext color1 color2 v g of (p, g') \<Rightarrow>
        (case colored_row ext color1 color2 vs g' of (ps, g'') \<Rightarrow> (p # ps, g'')))"

fun create_colored_texture :: "'g externals \<Rightarrow> real list list \<Rightarrow> int \<times> int \<times> int \<Rightarrow> int \<times> int \<times> int \<Rightarrow> 'g \<Rightarrow> pixel list list \<times> 'g" where
  "create_colored_texture ext [] color1 color2 g = ([], g)"
| "create_colored_texture ext (row # rows) color1 color2 g =
     (case colored_row ext color1 color2 row g of (ps, g') \<Rightarrow>
        (case create_colored_texture ext rows color1 color2 g' of (pss, g'') \<Rightarrow> (ps # pss, g'')))"

definition generate_body :: "'g externals \<Rightarrow> 'g \<Rightarrow> int \<Rightarrow> int \<Rightarrow> (fault + pixel list list) \<times> 'g" where
  \<comment> \<open>the statements inside \<open>try\<close>; when all noise values are equal the normalisation divides
      0.0 by 0.0, the colours are still drawn, and the bytes of the image are whatever the
      cast of nan gives: the model reports \<open>NotANumber\<close> with the generator state after the draws\<close>
  "generate_body ext g width height =
     (case create_seamless_noise ext width height 4 6 (1 / 2) 2 of
        Inl e \<Rightarrow> (Inl e, g)
      | Inr base \<Rightarrow>
         (case create_seamless_noise ext width height 20 8 (6 / 10) 2 of
            Inl e \<Rightarrow> (Inl e, g)
          | Inr detail \<Rightarrow>
              let combined = map2 (map2 (\<lambda>b d. b * (7 / 10) + d * (3 / 10))) base detail;
                  lo = Min (set (concat combined));
                  hi = Max (set (concat combined));
                  normalized = map (map (\<lambda>v. (v - lo) / (hi - lo))) combined
              in case random_randint ext 100 200 g of (color1, g1) \<Rightarrow>
                   (case random_randint ext 100 200 g1 of (color2, g2) \<Rightarrow>
                      (case create_colored_texture ext normalized color1 color2 g2 of
                         (texture, g3) \<Rightarrow>
                           if hi - lo = 0 then (Inl NotANumber, g3) else (Inr texture, g3)))))"

definition generate :: "'g externals \<Rightarrow> 'g \<Rightarrow> int \<Rightarrow> int \<Rightarrow> (fault + pixel list list) \<times> 'g" where
  "generate ext g width height =
     (if width \<le> 0 \<or> height \<le> 0 then (Inl ValueError, g)
      else
        case generate_body ext g width height of
          (Inl NotANumber, g') \<Rightarrow> (Inl NotANumber, g')
        | (Inl e, g') \<Rightarrow> (Inl RuntimeError, g')
        | (Inr texture, g') \<Rightarrow> (Inr texture, g'))"

section \<open>Auxiliary definitions and example states\<close>

text \<open>
  \<open>oriented\<close> is the first half of \<open>update\<close>, the branch on the mode, on its own.
  \<open>steady\<close> collects what every state reached from \<open>Camera_init\<close> satisfies.
\<close>

definition oriented :: "Camera \<Rightarrow> real \<Rightarrow> real \<Rightarrow> Camera" where
  "oriented c dx dy =
     (if mode c = ''orbit'' then update_orbit c dx dy
      else if mode c = ''free'' then update_free c dx dy
      else c)"

definition steady :: "Camera \<Rightarrow> bool" where
  "steady c \<longleftrightarrow>
     up c = (0, 1, 0) \<and> - pi / 2 + 1 / 10 \<le> pitch c \<and> pitch c \<le> pi / 2 - 1 / 10 \<and>
     transition_duration c = 1"

text \<open>
  With the default settings: the camera one second after the first switch to free mode
  (\<open>c_arrived\<close>), after one more tick (\<open>c_looking\<close>), and after one step forward instead
  (\<open>c_moved\<close>).
\<close>

definition c_arrived :: Camera where
  "c_arrived =
     \<lparr> config = default_config, distance = 30, yaw = 0, pitch = 0,
       position = (0, 0, 30), target = (0, 0, 0), up = (0, 1, 0), mode = ''free'',
       speed = 1 / 10, boost_factor = 2, transition_progress = 1, transition_duration = 1,
       start_position = (0, 0, 30), start_target = (0, 0, 0),
       end_position = (0, 0, 30), end_target = (0, 0, 0) \<rparr>"

definition c_looking :: Camera where
  "c_looking = c_arrived\<lparr> target := (0, 0, 31) \<rparr>"

definition c_moved :: Camera where
  "c_moved = c_arrived\<lparr> position := (0, 0, 301 / 10), target := (0, 0, 1 / 10) \<rparr>"

text \<open>
  Settings at the edge of what \<open>config.py\<close> accepts (speed 1.0, boost 5.0, radius 1.0), the
  free camera standing on the z axis at height \<open>z\<close> and looking along it, and one frame of
  the viewer's loop with the keys S and Shift held: \<open>move\<close>, \<open>update\<close>, \<open>check_collision\<close>.
\<close>

definition rapid_config :: Config where
  "rapid_config =
     default_config\<lparr> camera_speed := 1, camera_boost_factor := 5, planet_radius := 1 \<rparr>"

definition c_at :: "real \<Rightarrow> Camera" where
  "c_at z =
     \<lparr> config = rapid_config, distance = 30, yaw = 0, pitch = 0,
       position = (0, 0, z), target = (0, 0, z + 1), up = (0, 1, 0), mode = ''free'',
       speed = 1, boost_factor = 5, transition_progress = 1, transition_duration = 1,
       start_position = (0, 0, 30), start_target = (0, 0, 0),
       end_position = (0, 0, 30), end_target = (0, 0, 0) \<rparr>"

definition c_center :: Camera where
  "c_center = c_at 0"

definition backward_frame :: "op list" where
  "backward_frame = [Move (- 1) 0 0 True, Update 0 0 (1 / 60), CheckCollision 1]"

definition enter_free :: "op list" where
  \<comment> \<open>space bar, a one-second tick that completes the transition, one mouse event\<close>
  "enter_free = [ToggleMode, Update 0 0 1, Update 0 0 0]"

definition backward_half_frame :: "op list" where
  "backward_half_frame = [Move (- 1) 0 0 True, Update 0 0 (1 / 60)]"

text \<open>Externals whose noise function always raises and whose draws count the calls.\<close>

definition flat_externals :: "nat externals" where
  "flat_externals =
     \<lparr> snoise3 = (\<lambda>x y z octaves persistence lacunarity. Inl LibraryError),
       random_randint = (\<lambda>low high g. ((low, low, low), Suc g)),
       random_uniform = (\<lambda>low high g. ((low, low, low), Suc g)) \<rparr>"

section \<open>Clamping and vector arithmetic\<close>

declare linalg_norm.simps [simp del]

lemma np_clip_pitch_bounds:
  "- pi / 2 < np_clip p (- pi / 2 + 1 / 10) (pi / 2 - 1 / 10) \<and>
   np_clip p (- pi / 2 + 1 / 10) (pi / 2 - 1 / 10) < pi / 2"
  unfolding np_clip_def using pi_ge_two by linarith

lemma np_clip_pitch_range:
  "- pi / 2 + 1 / 10 \<le> np_clip p (- pi / 2 + 1 / 10) (pi / 2 - 1 / 10) \<and>
   np_clip p (- pi / 2 + 1 / 10) (pi / 2 - 1 / 10) \<le> pi / 2 - 1 / 10"
  unfolding np_clip_def using pi_ge_two by linarith

lemma np_clip_idem: "np_clip (np_clip a lo hi) lo hi = np_clip a lo hi"
  unfolding np_clip_def by linarith

lemma np_clip_pitch_zero: "np_clip 0 (1 / 10 - pi / 2) (pi / 2 - 1 / 10) = 0"
  unfolding np_clip_def using pi_ge_two by linarith

lemma linalg_norm_z: "linalg_norm (0, 0, z) = \<bar>z\<bar>"
  by (simp add: linalg_norm.simps)

lemma linalg_norm_nonneg: "0 \<le> linalg_norm v"
  by (cases v) (simp add: linalg_norm.simps)

lemma linalg_norm_zero_iff: "linalg_norm v = 0 \<longleftrightarrow> v = np_zeros3"
proof (cases v)
  case (fields a1 a2 a3)
  have "a1\<^sup>2 + a2\<^sup>2 + a3\<^sup>2 = 0 \<longleftrightarrow> a1 = 0 \<and> a2 = 0 \<and> a3 = 0"
    using sum_power2_eq_zero_iff [of a1 a2]
      sum_power2_eq_zero_iff [of "sqrt (a1\<^sup>2 + a2\<^sup>2)" a3]
    by (auto simp: sum_power2_ge_zero)
  then show ?thesis
    using fields by (simp add: np_zeros3_def linalg_norm.simps)
qed

lemma spherical_norm:
  "linalg_norm (d * cos p * sin y, d * sin p, d * cos p * cos y) = \<bar>d\<bar>"
proof -
  have "(d * cos p * sin y)\<^sup>2 + (d * sin p)\<^sup>2 + (d * cos p * cos y)\<^sup>2
        = d\<^sup>2 * ((cos p)\<^sup>2 * ((sin y)\<^sup>2 + (cos y)\<^sup>2) + (sin p)\<^sup>2)"
    by algebra
  also have "\<dots> = d\<^sup>2"
    by simp
  finally show ?thesis
    by (simp add: linalg_norm.simps)
qed

lemma norm_cross_forward_up:
  "linalg_norm (np_cross (get_forward_vector c) (0, 1, 0)) = \<bar>cos (pitch c)\<bar>"
proof -
  have "(cos (pitch c) * cos (yaw c))\<^sup>2 + (cos (pitch c) * sin (yaw c))\<^sup>2
        = (cos (pitch c))\<^sup>2 * ((sin (yaw c))\<^sup>2 + (cos (yaw c))\<^sup>2)"
    by algebra
  also have "\<dots> = (cos (pitch c))\<^sup>2"
    by simp
  finally show ?thesis
    by (simp add: get_forward_vector_def linalg_norm.simps)
qed

lemma linalg_norm_vscale: "linalg_norm (vscale v k) = linalg_norm v * \<bar>k\<bar>"
proof (cases v)
  case (fields a1 a2 a3)
  have "(a1 * k)\<^sup>2 + (a2 * k)\<^sup>2 + (a3 * k)\<^sup>2 = (a1\<^sup>2 + a2\<^sup>2 + a3\<^sup>2) * k\<^sup>2"
    by algebra
  then show ?thesis
    using fields by (simp add: real_sqrt_mult linalg_norm.simps)
qed

lemma linalg_norm_vdiv: "linalg_norm (vdiv v k) = linalg_norm v / \<bar>k\<bar>"
proof (cases v)
  case (fields a1 a2 a3)
  have "(a1 / k)\<^sup>2 + (a2 / k)\<^sup>2 + (a3 / k)\<^sup>2 = (a1\<^sup>2 + a2\<^sup>2 + a3\<^sup>2) / k\<^sup>2"
    by (simp add: power_divide add_divide_distrib)
  then show ?thesis
    using fields by (simp add: real_sqrt_divide linalg_norm.simps)
qed

lemma cos_pitch_positive:
  assumes "- pi / 2 + 1 / 10 \<le> p" and "p \<le> pi / 2 - 1 / 10"
  shows "0 < cos p"
  using assms by (intro cos_gt_zero_pi) linarith+

section \<open>What each operation leaves alone\<close>

lemma pitch_update_orbit:
  "pitch (update_orbit c dx dy) =
     np_clip (pitch c - dy * mouse_sensitivity (config c)) (- pi / 2 + 1 / 10) (pi / 2 - 1 / 10)"
  by (simp add: update_orbit_def update_position_def Let_def)

lemma pitch_update_free:
  "pitch (update_free c dx dy) =
     np_clip (pitch c - dy * mouse_sensitivity (config c)) (- pi / 2 + 1 / 10) (pi / 2 - 1 / 10)"
  by (simp add: update_free_def Let_def)

lemma update_transition_frame:
  assumes "update_transition c dt = Inr c'"
  shows "pitch c' = pitch c" "yaw c' = yaw c" "up c' = up c" "mode c' = mode c"
    "distance c' = distance c" "config c' = config c"
    "transition_duration c' = transition_duration c"
  using assms by (auto simp: update_transition_def Let_def split: if_splits)

lemma update_transition_returns:
  "transition_duration c \<noteq> 0 \<or> 1 \<le> transition_progress c \<Longrightarrow>
   \<exists>c'. update_transition c dt = Inr c'"
  by (auto simp: update_transition_def Let_def)

lemma update_transition_settled:
  "1 \<le> transition_progress c \<Longrightarrow> update_transition c dt = Inr c"
  by (simp add: update_transition_def)

lemma update_oriented: "update c dx dy dt = update_transition (oriented c dx dy) dt"
  by (simp add: update_def oriented_def)

lemma oriented_frame:
  "up (oriented c dx dy) = up c" "mode (oriented c dx dy) = mode c"
  "transition_progress (oriented c dx dy) = transition_progress c"
  "transition_duration (oriented c dx dy) = transition_duration c"
  "distance (oriented c dx dy) = distance c" "config (oriented c dx dy) = config c"
  by (simp_all add: oriented_def update_orbit_def update_free_def update_position_def Let_def)

lemma oriented_pitch:
  "mode c = ''orbit'' \<or> mode c = ''free'' \<Longrightarrow>
   pitch (oriented c dx dy) =
     np_clip (pitch c - dy * mouse_sensitivity (config c)) (- pi / 2 + 1 / 10) (pi / 2 - 1 / 10)"
  by (auto simp: oriented_def pitch_update_orbit pitch_update_free)

lemma oriented_idem: "oriented (oriented c 0 0) 0 0 = oriented c 0 0"
  by (simp add: oriented_def update_orbit_def update_free_def update_position_def
      get_forward_vector_def Let_def np_clip_idem)

lemma move_frame:
  assumes "move c f r u b = Inr c'"
  shows "up c' = up c" "pitch c' = pitch c" "transition_duration c' = transition_duration c"
    "mode c' = mode c"
  using assms by (auto simp: move_def Let_def split: if_splits)

lemma zoom_frame:
  assumes "zoom c a = Inr c'"
  shows "up c' = up c" "pitch c' = pitch c" "transition_duration c' = transition_duration c"
    "mode c' = mode c"
  using assms by (auto simp: zoom_def update_position_def Let_def move_frame split: if_splits)

lemma toggle_mode_frame:
  "up (toggle_mode c) = up c" "transition_duration (toggle_mode c) = transition_duration c"
  by (simp_all add: toggle_mode_def update_position_def Let_def)

lemma toggle_mode_pitch:
  "pitch (toggle_mode c) = (if mode c = ''orbit'' then pitch c else 0)"
  by (simp add: toggle_mode_def update_position_def Let_def)

lemma check_collision_frame:
  assumes "check_collision c radius = Inr c'"
  shows "up c' = up c" "pitch c' = pitch c" "transition_duration c' = transition_duration c"
    "mode c' = mode c" "target c' = target c"
  using assms by (auto simp: check_collision_def Let_def split: if_splits)

lemma update_frame:
  assumes "update c dx dy dt = Inr c'"
  shows "up c' = up c" "transition_duration c' = transition_duration c" "mode c' = mode c"
  using assms update_transition_frame [of "oriented c dx dy" dt c']
  by (simp_all add: update_oriented oriented_frame)

lemma apply_op_up: "apply_op c x = Inr c' \<Longrightarrow> up c' = up c"
  by (cases x)
    (auto simp: update_frame move_frame zoom_frame toggle_mode_frame check_collision_frame)

lemma run_up: "run c xs = Inr c' \<Longrightarrow> up c' = up c"
proof (induction xs arbitrary: c)
  case Nil
  then show ?case by simp
next
  case (Cons x xs)
  from Cons.prems obtain c1 where step: "apply_op c x = Inr c1" and rest: "run c1 xs = Inr c'"
    by (auto split: sum.splits)
  from Cons.IH [OF rest] apply_op_up [OF step] show ?case by simp
qed

lemma run_append:
  "run c (xs @ ys) = (case run c xs of Inl e \<Rightarrow> Inl e | Inr c' \<Rightarrow> run c' ys)"
  by (induction xs arbitrary: c) (auto split: sum.splits)

section \<open>The invariant of reachable states\<close>

lemma steady_init: "steady (Camera_init cfg)"
  using pi_ge_two by (simp add: steady_def Camera_init_def)

lemma steady_update:
  assumes "steady c" and "update c dx dy dt = Inr c'"
  shows "steady c'"
proof -
  have fr: "up c' = up c" "transition_duration c' = transition_duration c"
    using update_frame [OF assms(2)] by simp_all
  have p: "pitch c' = pitch (oriented c dx dy)"
    using update_transition_frame(1) [of "oriented c dx dy" dt c'] assms(2)
    by (simp add: update_oriented)
  have "- pi / 2 + 1 / 10 \<le> pitch (oriented c dx dy) \<and> pitch (oriented c dx dy) \<le> pi / 2 - 1 / 10"
  proof (cases "mode c = ''orbit'' \<or> mode c = ''free''")
    case True
    then show ?thesis
      using np_clip_pitch_range by (simp add: oriented_pitch)
  next
    case False
    then show ?thesis
      using assms(1) by (simp add: oriented_def steady_def)
  qed
  then show ?thesis
    using assms(1) fr p by (simp add: steady_def)
qed

lemma steady_toggle: "steady c \<Longrightarrow> steady (toggle_mode c)"
  using pi_ge_two by (auto simp: steady_def toggle_mode_frame toggle_mode_pitch)

lemma steady_apply_op:
  assumes "steady c" and "apply_op c x = Inr c'"
  shows "steady c'"
proof (cases x)
  case (Update dx dy dt)
  then show ?thesis
    using assms steady_update by simp
next
  case (Move f r u b)
  then show ?thesis
    using assms move_frame [of c f r u b c'] by (simp add: steady_def)
next
  case (Zoom a)
  then show ?thesis
    using assms zoom_frame [of c a c'] by (simp add: steady_def)
next
  case ToggleMode
  then show ?thesis
    using assms steady_toggle by auto
next
  case (CheckCollision radius)
  then show ?thesis
    using assms check_collision_frame [of c radius c'] by (simp add: steady_def)
qed

lemma steady_run: "steady c \<Longrightarrow> run c xs = Inr c' \<Longrightarrow> steady c'"
proof (induction xs arbitrary: c)
  case Nil
  then show ?case by simp
next
  case (Cons x xs)
  from Cons.prems(2) obtain c1 where step: "apply_op c x = Inr c1" and rest: "run c1 xs = Inr c'"
    by (auto split: sum.splits)
  from steady_apply_op [OF Cons.prems(1) step] rest show ?case
    by (rule Cons.IH)
qed

section \<open>Orbit position, collision clamp, mode switch\<close>

lemma update_orbit_pose:
  "linalg_norm (position (update_orbit c dx dy)) = \<bar>distance c\<bar>"
  "target (update_orbit c dx dy) = target c"
  "distance (update_orbit c dx dy) = distance c"
  by (simp_all add: update_orbit_def update_position_def Let_def spherical_norm)

lemma zoom_orbit:
  assumes "mode c = ''orbit''"
  shows "\<exists>c'. zoom c amount = Inr c' \<and> linalg_norm (position c') = \<bar>distance c'\<bar> \<and>
           target c' = target c \<and> mode c' = ''orbit''"
  using assms by (simp add: zoom_def update_position_def Let_def spherical_norm)

lemma update_orbit_settled:
  assumes "mode c = ''orbit''" and "1 \<le> transition_progress c"
  shows "\<exists>c'. update c dx dy dt = Inr c' \<and> linalg_norm (position c') = \<bar>distance c'\<bar> \<and>
           target c' = target c \<and> mode c' = ''orbit''"
proof -
  have "update c dx dy dt = Inr (update_orbit c dx dy)"
    using assms update_transition_settled [of "oriented c dx dy" dt]
    by (simp add: update_oriented oriented_frame) (simp add: oriented_def)
  moreover have "mode (update_orbit c dx dy) = ''orbit''"
    using assms(1) oriented_frame(2) [of c dx dy] by (simp add: oriented_def)
  ultimately show ?thesis
    by (simp add: update_orbit_pose)
qed

text \<open>
  Away from the origin the clamp does what its name says: the new position is the old one
  scaled by a positive factor, it lies on the sphere of radius \<open>radius + 0.1\<close>, and in orbit
  mode the stored distance follows.
\<close>

lemma check_collision_clamps:
  assumes "linalg_norm (position c) < radius + 1 / 10" and "position c \<noteq> np_zeros3"
  shows "\<exists>c'. check_collision c radius = Inr c' \<and>
           linalg_norm (position c') = radius + 1 / 10 \<and>
           position c' = vscale (position c) ((radius + 1 / 10) / linalg_norm (position c)) \<and>
           0 < (radius + 1 / 10) / linalg_norm (position c) \<and>
           vdiv (position c') (linalg_norm (position c')) =
             vdiv (position c) (linalg_norm (position c)) \<and>
           (mode c = ''orbit'' \<longrightarrow> distance c' = radius + 1 / 10) \<and>
           (mode c \<noteq> ''orbit'' \<longrightarrow> distance c' = distance c) \<and>
           target c' = target c \<and> mode c' = mode c"
proof -
  define n where "n = linalg_norm (position c)"
  define k where "k = radius + 1 / 10"
  have n_pos: "0 < n"
    using assms(2) linalg_norm_zero_iff [of "position c"] linalg_norm_nonneg [of "position c"]
    by (simp add: n_def)
  have k_pos: "0 < k"
    using assms(1) n_pos by (simp add: n_def k_def)
  define p' where "p' = vscale (vdiv (position c) n) k"
  have norm_p': "linalg_norm p' = k"
    using n_pos k_pos by (simp add: p'_def linalg_norm_vscale linalg_norm_vdiv n_def [symmetric])
  have alt: "p' = vscale (position c) (k / n)"
    by (cases "position c") (simp add: p'_def)
  have "vdiv (vscale (position c) (k / n)) k = vdiv (position c) n"
    using k_pos by (cases "position c") simp
  then have "vdiv p' k = vdiv (position c) n"
    by (simp only: alt)
  then have dir: "vdiv p' (linalg_norm p') = vdiv (position c) n"
    by (simp only: norm_p')
  have res: "check_collision c radius =
        Inr (if mode c = ''orbit'' then c\<lparr> position := p', distance := k \<rparr>
             else c\<lparr> position := p' \<rparr>)"
    using assms(1) n_pos by (simp add: check_collision_def Let_def n_def k_def p'_def)
  show ?thesis
    using res norm_p' alt dir n_pos k_pos
    by (simp add: n_def [symmetric] k_def [symmetric])
qed

lemma check_collision_no_raise:
  "check_collision c radius = Inl e \<Longrightarrow> e = NotANumber \<and> position c = np_zeros3"
  by (auto simp: check_collision_def Let_def linalg_norm_zero_iff split: if_splits)

lemma toggle_orbit_to_free:
  assumes "mode c = ''orbit''"
  shows "toggle_mode c =
    c\<lparr> mode := ''free'', end_position := position c, end_target := target c,
       start_position := position c, start_target := target c, transition_progress := 0 \<rparr>"
  using assms by (simp add: toggle_mode_def Let_def)

lemma toggle_free_to_orbit:
  assumes "mode c \<noteq> ''orbit''"
  shows "toggle_mode c =
    c\<lparr> mode := ''orbit'', distance := initial_distance (config c), yaw := 0, pitch := 0,
       position := (0, 0, initial_distance (config c)),
       end_position := (0, 0, initial_distance (config c)), end_target := np_zeros3,
       start_position := (0, 0, initial_distance (config c)), start_target := target c,
       transition_progress := 0 \<rparr>"
  using assms by (simp add: toggle_mode_def update_position_def Let_def)

lemma move_returns:
  assumes "up c = (0, 1, 0)" and "- pi / 2 + 1 / 10 \<le> pitch c" and "pitch c \<le> pi / 2 - 1 / 10"
  shows "0 < linalg_norm (np_cross (get_forward_vector c) (up c))"
    and "\<exists>c'. move c forward right upward boost = Inr c'"
proof -
  have "0 < cos (pitch c)"
    using assms(2,3) by (rule cos_pitch_positive)
  then show pos: "0 < linalg_norm (np_cross (get_forward_vector c) (up c))"
    by (simp add: assms(1) norm_cross_forward_up)
  then show "\<exists>c'. move c forward right upward boost = Inr c'"
    by (simp add: move_def Let_def)
qed

section \<open>Runs from a fresh camera\<close>

text \<open>
  From a steady state the only operation with an irregular outcome is \<open>check_collision\<close>
  at the origin, and its outcome is the nan position. A run from \<open>Camera_init\<close>
  therefore raises no exception, and \<open>move\<close> returns in every state such a run reaches.
\<close>

lemma steady_apply_op_fault:
  assumes "steady c" and "apply_op c x = Inl e"
  shows "e = NotANumber \<and> (\<exists>radius. x = CheckCollision radius) \<and> position c = np_zeros3"
proof (cases x)
  case (Update dx dy dt)
  then show ?thesis
    using assms update_transition_returns [of "oriented c dx dy" dt]
    by (auto simp: steady_def update_oriented oriented_frame)
next
  case (Move f r u b)
  then show ?thesis
    using assms move_returns(2) [of c f r u b] by (auto simp: steady_def)
next
  case (Zoom a)
  then show ?thesis
    using assms move_returns(2) [of c "a * zoom_speed (config c)" 0 0 False]
    by (auto simp: steady_def zoom_def Let_def split: if_splits)
next
  case ToggleMode
  then show ?thesis
    using assms by simp
next
  case (CheckCollision radius)
  then show ?thesis
    using assms check_collision_no_raise [of c radius e] by simp
qed

lemma steady_run_fault: "steady c \<Longrightarrow> run c xs = Inl e \<Longrightarrow> e = NotANumber"
proof (induction xs arbitrary: c)
  case Nil
  then show ?case by simp
next
  case (Cons x xs)
  show ?case
  proof (cases "apply_op c x")
    case (Inl e')
    then show ?thesis
      using Cons.prems steady_apply_op_fault [of c x e'] by simp
  next
    case (Inr c1)
    then have "steady c1" "run c1 xs = Inl e"
      using Cons.prems steady_apply_op [of c x c1] by simp_all
    then show ?thesis
      by (rule Cons.IH)
  qed
qed

lemma run_from_init_raises_nothing:
  "run (Camera_init cfg) xs = Inl e \<Longrightarrow> e = NotANumber"
  using steady_run_fault [OF steady_init] .

lemma move_returns_from_init:
  assumes "run (Camera_init cfg) xs = Inr c"
  shows "\<exists>c'. move c forward right upward boost = Inr c'"
proof -
  have "steady c"
    using steady_run [OF steady_init assms] .
  then show ?thesis
    using move_returns(2) [of c forward right upward boost] by (simp add: steady_def)
qed

section \<open>Idle updates around a mode switch\<close>

lemma lerp_end: "vadd (vscale a 0) (vscale b 1) = b"
  by (cases a, cases b) simp

lemma vscale_zero: "vscale a 0 = (0, 0, 0)"
  by (cases a) simp

lemma ease_one: "ease_in_out_cubic 1 = 1"
  by (simp add: ease_in_out_cubic_def)

text \<open>
  Once the progress is at least 1 the transition step does nothing, so an idle update
  (\<open>dx = dy = 0\<close>) does not depend on \<open>dt\<close>, and a second idle update changes nothing.
\<close>

lemma settled_update_idempotent:
  assumes "1 \<le> transition_progress c"
  shows "update_transition c dt = Inr c \<and>
         (\<exists>c1. update c 0 0 dt = Inr c1 \<and> update c 0 0 dt' = Inr c1 \<and>
               update c1 0 0 dt' = Inr c1 \<and> up c1 = up c)"
proof -
  have first: "update c 0 0 t = Inr (oriented c 0 0)" for t
    using assms update_transition_settled [of "oriented c 0 0" t]
    by (simp add: update_oriented oriented_frame)
  have "update (oriented c 0 0) 0 0 dt' = Inr (oriented (oriented c 0 0) 0 0)"
    using assms update_transition_settled [of "oriented (oriented c 0 0) 0 0" dt']
    by (simp add: update_oriented oriented_frame)
  then have again: "update (oriented c 0 0) 0 0 dt' = Inr (oriented c 0 0)"
    by (simp only: oriented_idem)
  have "up (oriented c 0 0) = up c"
    by (simp add: oriented_frame)
  with first again update_transition_settled [OF assms, of dt] show ?thesis
    by blast
qed

text \<open>
  The switch from free to orbit comes to rest: when its transition has run for a second
  the camera stands at the reset orbit position, looks at the origin, and an idle update
  returns the very same state.
\<close>

lemma free_to_orbit_settles:
  assumes "mode c \<noteq> ''orbit''" and "transition_duration c = 1"
  shows "\<exists>c1. update (toggle_mode c) 0 0 1 = Inr c1 \<and> transition_progress c1 = 1 \<and>
           position c1 = (0, 0, initial_distance (config c)) \<and> target c1 = np_zeros3 \<and>
           update c1 0 0 dt = Inr c1"
  using assms
  by (simp add: toggle_free_to_orbit update_def update_orbit_def update_position_def
      update_transition_def ease_one np_clip_pitch_zero np_zeros3_def vscale_zero Let_def)

text \<open>
  The switch from orbit to free does not: the transition ends on the pose the camera had
  (position and target kept, as the comment in \<open>toggle_mode\<close> says), and the first idle
  update afterwards replaces the target by position + forward.
\<close>

lemma orbit_to_free_snaps:
  assumes "mode c = ''orbit''" and "transition_duration c = 1"
  shows "\<exists>c1 c2. update (toggle_mode c) 0 0 1 = Inr c1 \<and> transition_progress c1 = 1 \<and>
           position c1 = position c \<and> target c1 = target c \<and>
           update c1 0 0 dt = Inr c2 \<and> position c2 = position c \<and>
           target c2 = vadd (position c) (get_forward_vector c1)"
  using assms
  by (simp add: toggle_orbit_to_free update_def update_free_def
      update_transition_def ease_one lerp_end get_forward_vector_def np_clip_idem Let_def)

text \<open>
  What the clamped pitch gives: the cross product of forward and up is not zero, so
  \<open>move\<close> and \<open>zoom\<close> return a camera; \<open>update\<close> returns when the transition duration
  is not zero, and \<open>check_collision\<close> returns when the position is not the origin.
\<close>

lemma operations_return:
  assumes "up c = (0, 1, 0)"
    and "- pi / 2 + 1 / 10 \<le> pitch c" and "pitch c \<le> pi / 2 - 1 / 10"
    and "transition_duration c \<noteq> 0"
  shows "np_cross (get_forward_vector c) (up c) \<noteq> np_zeros3 \<and>
         0 < linalg_norm (np_cross (get_forward_vector c) (up c)) \<and>
         (\<exists>c'. move c forward right upward boost = Inr c') \<and>
         (\<exists>c'. zoom c amount = Inr c') \<and>
         (\<exists>c'. update c dx dy dt = Inr c') \<and>
         (position c \<noteq> np_zeros3 \<longrightarrow> (\<exists>c'. check_collision c radius = Inr c'))"
proof -
  note mv = move_returns [OF assms(1-3)]
  have cross: "np_cross (get_forward_vector c) (up c) \<noteq> np_zeros3"
    using mv(1) linalg_norm_zero_iff [of "np_cross (get_forward_vector c) (up c)"] by simp
  have zm: "\<exists>c'. zoom c amount = Inr c'"
    using mv(2) [of "amount * zoom_speed (config c)" 0 0 False] by (simp add: zoom_def Let_def)
  have upd: "\<exists>c'. update c dx dy dt = Inr c'"
    using update_transition_returns [of "oriented c dx dy" dt] assms(4)
    by (simp add: update_oriented oriented_frame)
  have cc: "\<exists>c'. check_collision c radius = Inr c'" if "position c \<noteq> np_zeros3"
    using that check_collision_no_raise [of c radius] by (cases "check_collision c radius") auto
  show ?thesis
    using cross mv zm upd cc by simp
qed

section \<open>Concrete runs\<close>

lemma toggle_init:
  "toggle_mode (Camera_init default_config) = c_arrived\<lparr> transition_progress := 0 \<rparr>"
  by (simp add: toggle_mode_def Camera_init_def c_arrived_def default_config_def np_zeros3_def
      Let_def)

lemma update_to_arrived: "update (c_arrived\<lparr> transition_progress := 0 \<rparr>) 0 0 1 = Inr c_arrived"
  by (simp add: update_def update_free_def update_transition_def c_arrived_def
      get_forward_vector_def np_clip_pitch_zero ease_in_out_cubic_def Let_def)

lemma update_to_looking: "update c_arrived 0 0 (1 / 2) = Inr c_looking"
  by (simp add: update_def update_free_def update_transition_def c_arrived_def c_looking_def
      get_forward_vector_def np_clip_pitch_zero Let_def)

lemma move_to_moved: "move c_arrived 1 0 0 False = Inr c_moved"
  by (simp add: move_def c_arrived_def c_moved_def get_forward_vector_def Let_def
      linalg_norm.simps)

lemma reach_arrived: "run (Camera_init default_config) [ToggleMode, Update 0 0 1] = Inr c_arrived"
  by (simp add: toggle_init update_to_arrived)

lemma reach_looking:
  "run (Camera_init default_config) [ToggleMode, Update 0 0 1, Update 0 0 (1 / 2)] = Inr c_looking"
  by (simp add: toggle_init update_to_arrived update_to_looking)

lemma rapid_start: "run (Camera_init rapid_config) enter_free = Inr (c_at 30)"
  by (simp add: enter_free_def toggle_mode_def Camera_init_def rapid_config_def
      default_config_def np_zeros3_def update_def update_free_def update_transition_def c_at_def
      get_forward_vector_def np_clip_pitch_zero ease_in_out_cubic_def Let_def)

lemma backward_frame_step:
  assumes "11 / 10 \<le> z - 5"
  shows "run (c_at z) backward_frame = Inr (c_at (z - 5))"
  using assms
  by (simp add: backward_frame_def move_def update_def update_free_def update_transition_def
      check_collision_def c_at_def get_forward_vector_def np_clip_pitch_zero Let_def
      linalg_norm.simps)

lemma last_frame_to_center: "run (c_at 5) backward_half_frame = Inr c_center"
  by (simp add: backward_half_frame_def move_def update_def update_free_def
      update_transition_def c_center_def c_at_def get_forward_vector_def np_clip_pitch_zero
      Let_def linalg_norm.simps)

text \<open>
  The centre of the planet is reached by the viewer's own loop: five full frames of moving
  backwards with boost, each passing the collision check, and the sixth move lands on the
  origin just before the sixth check.
\<close>

lemma reach_center:
  "run (Camera_init rapid_config)
     (enter_free @ backward_frame @ backward_frame @ backward_frame @ backward_frame @
      backward_frame @ backward_half_frame) = Inr c_center"
  using backward_frame_step [of 30] backward_frame_step [of 25] backward_frame_step [of 20]
    backward_frame_step [of 15] backward_frame_step [of 10]
  by (simp add: run_append rapid_start last_frame_to_center)

lemma generate_wraps_library_errors:
  "generate flat_externals 7 2 1 = (Inl RuntimeError, 7)"
  by (simp add: generate_def generate_body_def create_seamless_noise_def flat_externals_def
      upt_conv_Cons)

section \<open>The claims\<close>

subsection \<open>C1: the transition that a mode switch starts\<close>

text \<open>
  C1 says that in both directions \<open>toggle_mode\<close> starts a transition whose start pose is the
  pose just before the switch, whose end pose is the one computed for that direction, and
  whose progress is 0. From orbit to free that is what happens (\<open>toggle_orbit_to_free\<close>).
  From free to orbit it is not: \<open>_update_position\<close> has already overwritten the position
  when \<open>start_position\<close> is copied, so start and end position are both the reset orbit
  position (\<open>toggle_free_to_orbit\<close>). The run below is a camera that switched to free mode,
  let the transition finish and took one step forward to (0, 0, 30.1); switching back
  records (0, 0, 30) as the start position.
\<close>

theorem toggle_mode_free_to_orbit_start_position:
  "run (Camera_init default_config) [ToggleMode, Update 0 0 1, Move 1 0 0 False] = Inr c_moved \<and>
   mode c_moved = ''free'' \<and>
   position c_moved = (0, 0, 301 / 10) \<and>
   mode (toggle_mode c_moved) = ''orbit'' \<and>
   start_position (toggle_mode c_moved) = (0, 0, 30) \<and>
   end_position (toggle_mode c_moved) = (0, 0, 30) \<and>
   start_position (toggle_mode c_moved) \<noteq> position c_moved \<and>
   start_target (toggle_mode c_moved) = target c_moved \<and>
   transition_progress (toggle_mode c_moved) = 0"
  by (simp add: toggle_init update_to_arrived move_to_moved)
    (simp add: toggle_mode_def c_moved_def c_arrived_def update_position_def default_config_def
      Let_def)

subsection \<open>C2: the orbit invariant\<close>

text \<open>
  C2 says that whenever the mode is orbit, after any of \<open>update\<close>, \<open>zoom\<close>, \<open>toggle_mode\<close>
  and \<open>check_collision\<close> the norm of the position equals the distance and the target is the
  origin. After \<open>toggle_mode\<close> this fails: the camera \<open>c_looking\<close> is in free mode and looks
  at (0, 0, 31); switching to orbit mode keeps that target, which the transition only
  afterwards moves to the origin.
\<close>

theorem orbit_invariant_fails_after_toggle:
  "run (Camera_init default_config) [ToggleMode, Update 0 0 1, Update 0 0 (1 / 2)] = Inr c_looking \<and>
   mode (toggle_mode c_looking) = ''orbit'' \<and>
   \<not> (linalg_norm (position (toggle_mode c_looking)) = distance (toggle_mode c_looking) \<and>
      target (toggle_mode c_looking) = np_zeros3)"
  by (simp add: toggle_init update_to_arrived update_to_looking)
    (simp add: toggle_mode_def c_looking_def c_arrived_def update_position_def np_zeros3_def
      Let_def)

text \<open>
  C2 as amended: for a camera in orbit mode whose target is the origin, after \<open>zoom\<close>, and
  after \<open>update\<close> when no transition is in flight (progress at least 1), the norm of the
  position is the absolute value of the distance and the target is still the origin;
  \<open>check_collision\<close> on a position other than the origin keeps "norm of position =
  distance, target = origin" if it held before. All three leave the mode at orbit.
\<close>

theorem orbit_invariant_settled:
  assumes "mode c = ''orbit''" and "target c = np_zeros3"
  shows "(\<exists>c'. zoom c amount = Inr c' \<and> mode c' = ''orbit'' \<and>
            linalg_norm (position c') = \<bar>distance c'\<bar> \<and> target c' = np_zeros3) \<and>
         (1 \<le> transition_progress c \<longrightarrow>
            (\<exists>c'. update c dx dy dt = Inr c' \<and> mode c' = ''orbit'' \<and>
               linalg_norm (position c') = \<bar>distance c'\<bar> \<and> target c' = np_zeros3)) \<and>
         (linalg_norm (position c) = distance c \<and> position c \<noteq> np_zeros3 \<longrightarrow>
            (\<exists>c'. check_collision c radius = Inr c' \<and> mode c' = ''orbit'' \<and>
               linalg_norm (position c') = distance c' \<and> target c' = np_zeros3))"
proof -
  have z: "\<exists>c'. zoom c amount = Inr c' \<and> mode c' = ''orbit'' \<and>
            linalg_norm (position c') = \<bar>distance c'\<bar> \<and> target c' = np_zeros3"
    using zoom_orbit [OF assms(1), of amount] assms(2) by auto
  have u: "\<exists>c'. update c dx dy dt = Inr c' \<and> mode c' = ''orbit'' \<and>
               linalg_norm (position c') = \<bar>distance c'\<bar> \<and> target c' = np_zeros3"
    if "1 \<le> transition_progress c"
    using update_orbit_settled [OF assms(1) that, of dx dy dt] assms(2) by auto
  have k: "\<exists>c'. check_collision c radius = Inr c' \<and> mode c' = ''orbit'' \<and>
               linalg_norm (position c') = distance c' \<and> target c' = np_zeros3"
    if inv: "linalg_norm (position c) = distance c" and nz: "position c \<noteq> np_zeros3"
  proof (cases "linalg_norm (position c) < radius + 1 / 10")
    case True
    from check_collision_clamps [OF True nz] show ?thesis
      using assms by auto
  next
    case False
    then have "check_collision c radius = Inr c"
      by (simp add: check_collision_def Let_def)
    then show ?thesis
      using assms inv by simp
  qed
  show ?thesis
    using z u k by blast
qed

theorem orbit_invariant_settled_witness:
  "mode (Camera_init default_config) = ''orbit'' \<and>
   target (Camera_init default_config) = np_zeros3 \<and>
   1 \<le> transition_progress (Camera_init default_config) \<and>
   linalg_norm (position (Camera_init default_config)) = distance (Camera_init default_config) \<and>
   position (Camera_init default_config) \<noteq> np_zeros3 \<and>
   (\<exists>c'. zoom (Camera_init default_config) 1 = Inr c' \<and> mode c' = ''orbit'' \<and>
      linalg_norm (position c') = \<bar>distance c'\<bar> \<and> target c' = np_zeros3) \<and>
   (\<exists>c'. update (Camera_init default_config) 3 4 0 = Inr c' \<and> mode c' = ''orbit'' \<and>
      linalg_norm (position c') = \<bar>distance c'\<bar> \<and> target c' = np_zeros3) \<and>
   (\<exists>c'. check_collision (Camera_init default_config) 35 = Inr c' \<and> mode c' = ''orbit'' \<and>
      linalg_norm (position c') = distance c' \<and> target c' = np_zeros3)"
proof -
  have h: "mode (Camera_init default_config) = ''orbit''"
    "target (Camera_init default_config) = np_zeros3"
    "1 \<le> transition_progress (Camera_init default_config)"
    "linalg_norm (position (Camera_init default_config)) = distance (Camera_init default_config)"
    "position (Camera_init default_config) \<noteq> np_zeros3"
    by (simp_all add: Camera_init_def default_config_def linalg_norm_z np_zeros3_def)
  from orbit_invariant_settled [OF h(1,2), of 1 3 4 0 35] h show ?thesis
    by blast
qed

subsection \<open>C3: updates after the transition has finished\<close>

text \<open>
  C3 says that once the progress is 1, every \<open>update\<close> with \<open>dx = dy = 0\<close> and \<open>dt \<ge> 0\<close>
  leaves position, target and up unchanged. After the switch from free to orbit that is so
  (\<open>free_to_orbit_settles\<close>), and from the second idle update on it is so in every state
  (\<open>settled_update_idempotent\<close>). After the switch from orbit to free it is not
  (\<open>orbit_to_free_snaps\<close>). The camera \<open>c_arrived\<close> has just finished that transition:
  progress 1, position and target those of the fresh camera, which looks at the planet. The
  next idle update turns the view round, from the target (0, 0, 0) to the target (0, 0, 31).
\<close>

theorem settled_update_moves_target:
  "run (Camera_init default_config) [ToggleMode, Update 0 0 1] = Inr c_arrived \<and>
   mode c_arrived = ''free'' \<and> transition_progress c_arrived = 1 \<and>
   position c_arrived = position (Camera_init default_config) \<and>
   target c_arrived = target (Camera_init default_config) \<and>
   target c_arrived = (0, 0, 0) \<and>
   (0::real) \<le> 1 / 2 \<and>
   update c_arrived 0 0 (1 / 2) = Inr c_looking \<and>
   target c_looking = (0, 0, 31) \<and>
   target c_looking \<noteq> target c_arrived"
  by (simp add: toggle_init update_to_arrived update_to_looking)
    (simp add: c_looking_def c_arrived_def Camera_init_def default_config_def np_zeros3_def)

subsection \<open>C4: the collision clamp\<close>

text \<open>
  C4 says that every camera whose position is closer to the origin than
  \<open>planet_radius + 0.1\<close> is put on the sphere of that radius, in the direction it had, and
  that in orbit mode the stored distance follows. For every position other than the origin
  this holds (\<open>check_collision_clamps\<close>). At the origin the code divides the zero vector by
  its norm 0.0: numpy stores nan in all three components and the camera is not on the
  sphere. The camera \<open>c_center\<close> is the one that \<open>reach_center\<close> reaches at the origin with
  planet radius 1.
\<close>

theorem check_collision_at_center:
  "run (Camera_init rapid_config)
     (enter_free @ backward_frame @ backward_frame @ backward_frame @ backward_frame @
      backward_frame @ backward_half_frame) = Inr c_center \<and>
   position c_center = np_zeros3 \<and>
   linalg_norm (position c_center) < planet_radius (config c_center) + 1 / 10 \<and>
   check_collision c_center (planet_radius (config c_center)) = Inl NotANumber"
proof -
  have "position c_center = np_zeros3"
    by (simp add: c_center_def c_at_def np_zeros3_def)
  moreover have "linalg_norm (position c_center) < planet_radius (config c_center) + 1 / 10"
    by (simp add: c_center_def c_at_def rapid_config_def default_config_def linalg_norm_z)
  moreover have "check_collision c_center (planet_radius (config c_center)) = Inl NotANumber"
    by (simp add: check_collision_def c_center_def c_at_def rapid_config_def default_config_def
        linalg_norm_z Let_def)
  ultimately show ?thesis
    using reach_center by blast
qed

subsection \<open>C5: the pitch after an update\<close>

text \<open>
  C5: after the clamping step of \<open>update\<close>, in orbit and in free mode, the pitch lies
  strictly between \<open>-\<pi>/2\<close> and \<open>\<pi>/2\<close>, whatever the pointer deltas and the pitch before.
  The first four conjuncts are about the two mode-specific steps; the last is about
  \<open>update\<close> as a whole, which returns whenever the transition duration is not zero.
\<close>

theorem pitch_strictly_inside:
  assumes "mode c = ''orbit'' \<or> mode c = ''free''"
    and "transition_duration c \<noteq> 0"
  shows "- pi / 2 < pitch (update_orbit c dx dy) \<and> pitch (update_orbit c dx dy) < pi / 2 \<and>
         - pi / 2 < pitch (update_free c dx dy) \<and> pitch (update_free c dx dy) < pi / 2 \<and>
         (\<exists>c'. update c dx dy dt = Inr c' \<and> - pi / 2 < pitch c' \<and> pitch c' < pi / 2)"
proof -
  obtain c' where c': "update_transition (oriented c dx dy) dt = Inr c'"
    using update_transition_returns [of "oriented c dx dy" dt] assms(2)
    by (auto simp: oriented_frame)
  have "pitch c' = pitch (oriented c dx dy)"
    using update_transition_frame(1) [OF c'] .
  then have "- pi / 2 < pitch c' \<and> pitch c' < pi / 2"
    using np_clip_pitch_bounds assms(1) by (simp add: oriented_pitch)
  then show ?thesis
    using c' np_clip_pitch_bounds
    by (simp add: update_oriented pitch_update_orbit pitch_update_free)
qed

theorem pitch_strictly_inside_witness:
  "(mode (Camera_init default_config) = ''orbit'' \<or> mode (Camera_init default_config) = ''free'') \<and>
   transition_duration (Camera_init default_config) \<noteq> 0 \<and>
   - pi / 2 < pitch (update_orbit (Camera_init default_config) 3 (- 4000)) \<and>
   pitch (update_orbit (Camera_init default_config) 3 (- 4000)) < pi / 2 \<and>
   - pi / 2 < pitch (update_free (Camera_init default_config) 3 (- 4000)) \<and>
   pitch (update_free (Camera_init default_config) 3 (- 4000)) < pi / 2 \<and>
   (\<exists>c'. update (Camera_init default_config) 3 (- 4000) 0 = Inr c' \<and>
      - pi / 2 < pitch c' \<and> pitch c' < pi / 2)"
proof -
  have h: "mode (Camera_init default_config) = ''orbit'' \<or> mode (Camera_init default_config) = ''free''"
    "transition_duration (Camera_init default_config) \<noteq> 0"
    by (simp_all add: Camera_init_def)
  from pitch_strictly_inside [OF h, of 3 "- 4000" 0] h show ?thesis
    by blast
qed

subsection \<open>C6: the easing function\<close>

text \<open>
  C6: the easing function is \<open>4t\<^sup>3\<close> below one half and \<open>1 - (-2t + 2)\<^sup>3 / 2\<close> from there on;
  it maps 0 to 0, 1 to 1 and one half to one half.
\<close>

theorem ease_in_out_cubic_values:
  "ease_in_out_cubic t = (if t < 1 / 2 then 4 * t ^ 3 else 1 - (- 2 * t + 2) ^ 3 / 2) \<and>
   ease_in_out_cubic 0 = 0 \<and> ease_in_out_cubic 1 = 1 \<and> ease_in_out_cubic (1 / 2) = 1 / 2"
  by (simp add: ease_in_out_cubic_def power3_eq_cube)

subsection \<open>C7: no division by zero in move, no failing operation\<close>

text \<open>
  C7 says that with \<open>up = (0, 1, 0)\<close> and the pitch inside the clamped range the forward
  vector is never parallel to up, so that \<open>move\<close> never divides by zero, and that camera
  operations never fail under valid input. The part about \<open>move\<close> holds
  (\<open>operations_return\<close>, and \<open>move_returns_from_init\<close> for every state a run reaches), and
  so do \<open>zoom\<close>, \<open>update\<close> and \<open>toggle_mode\<close>. \<open>check_collision\<close> does fail on valid
  input: the camera \<open>c_center\<close> is reached by the viewer's loop, has up (0, 1, 0), pitch 0
  and duration 1, \<open>move\<close> returns on it, and \<open>check_collision\<close> divides its position by the
  norm 0.0 and leaves no pose behind.
\<close>

theorem check_collision_fails_on_steady_camera:
  "run (Camera_init rapid_config)
     (enter_free @ backward_frame @ backward_frame @ backward_frame @ backward_frame @
      backward_frame @ backward_half_frame) = Inr c_center \<and>
   up c_center = (0, 1, 0) \<and>
   - pi / 2 + 1 / 10 \<le> pitch c_center \<and> pitch c_center \<le> pi / 2 - 1 / 10 \<and>
   transition_duration c_center = 1 \<and>
   0 < linalg_norm (np_cross (get_forward_vector c_center) (up c_center)) \<and>
   move c_center 1 0 0 False = Inr (c_at 1) \<and>
   check_collision c_center 1 = Inl NotANumber"
proof -
  have hyps: "up c_center = (0, 1, 0)" "- pi / 2 + 1 / 10 \<le> pitch c_center"
    "pitch c_center \<le> pi / 2 - 1 / 10" "transition_duration c_center = 1"
    using pi_ge_two by (simp_all add: c_center_def c_at_def)
  have cross: "0 < linalg_norm (np_cross (get_forward_vector c_center) (up c_center))"
    using move_returns(1) [OF hyps(1-3)] .
  have mv: "move c_center 1 0 0 False = Inr (c_at 1)"
    by (simp add: move_def c_center_def c_at_def get_forward_vector_def Let_def
        linalg_norm.simps)
  have cc: "check_collision c_center 1 = Inl NotANumber"
    by (simp add: check_collision_def c_center_def c_at_def linalg_norm_z Let_def)
  show ?thesis
    using reach_center hyps cross mv cc by blast
qed

subsection \<open>C8: texture dimensions are checked first\<close>

text \<open>
  C8: for every width and height of which one is zero or negative, \<open>generate\<close> raises
  ValueError, and nothing else happens: the result is the same for every noise function
  and every random generator, and the state of the random generator is the one passed in.
  The error is ValueError itself and not the RuntimeError into which the \<open>try\<close> block would
  turn it.
\<close>

theorem generate_rejects_nonpositive:
  assumes "width \<le> 0 \<or> height \<le> 0"
  shows "generate ext g width height = (Inl ValueError, g)"
  using assms by (simp add: generate_def)

theorem generate_rejects_nonpositive_witness:
  "((0::int) \<le> 0 \<or> (256::int) \<le> 0) \<and>
   generate flat_externals 7 0 256 = (Inl ValueError, 7)"
  using generate_rejects_nonpositive [of 0 256 flat_externals 7] by simp

subsection \<open>C9: the up vector\<close>

text \<open>
  C9: each of \<open>update\<close>, \<open>move\<close>, \<open>zoom\<close>, \<open>toggle_mode\<close> and \<open>check_collision\<close> leaves
  \<open>up\<close> as it was, so after any sequence of them on a fresh camera it is (0, 1, 0).
\<close>

theorem up_unchanged:
  "(apply_op c x = Inr c1 \<longrightarrow> up c1 = up c) \<and>
   (run c xs = Inr c2 \<longrightarrow> up c2 = up c) \<and>
   (run (Camera_init cfg) ys = Inr c3 \<longrightarrow> up c3 = (0, 1, 0))"
  using apply_op_up [of c x c1] run_up [of c xs c2] run_up [of "Camera_init cfg" ys c3]
  by (auto simp: Camera_init_def)

theorem up_unchanged_witness:
  "apply_op c_arrived (Update 0 0 (1 / 2)) = Inr c_looking \<and>
   run c_arrived [Update 0 0 (1 / 2)] = Inr c_looking \<and>
   up c_looking = up c_arrived \<and>
   run (Camera_init default_config) [ToggleMode, Update 0 0 1, Update 0 0 (1 / 2)] = Inr c_looking \<and>
   up c_looking = (0, 1, 0)"
proof -
  have a: "apply_op c_arrived (Update 0 0 (1 / 2)) = Inr c_looking"
    by (simp add: update_to_looking)
  have b: "run c_arrived [Update 0 0 (1 / 2)] = Inr c_looking"
    by (simp add: update_to_looking)
  from up_unchanged [of c_arrived "Update 0 0 (1 / 2)" c_looking "[Update 0 0 (1 / 2)]" c_looking
      default_config "[ToggleMode, Update 0 0 1, Update 0 0 (1 / 2)]" c_looking]
    a b reach_looking
  show ?thesis
    by blast
qed

subsection \<open>C10: no collision, no change\<close>

text \<open>
  C10: when the position is at least \<open>planet_radius + 0.1\<close> away from the origin,
  \<open>check_collision\<close> returns the camera it was given, every field unchanged.
\<close>

theorem check_collision_outside_noop:
  assumes "radius + 1 / 10 \<le> linalg_norm (position c)"
  shows "check_collision c radius = Inr c"
  using assms by (simp add: check_collision_def Let_def)

theorem check_collision_outside_noop_witness:
  "(10::real) + 1 / 10 \<le> linalg_norm (position (Camera_init default_config)) \<and>
   check_collision (Camera_init default_config) 10 = Inr (Camera_init default_config)"
proof -
  have h: "(10::real) + 1 / 10 \<le> linalg_norm (position (Camera_init default_config))"
    by (simp add: Camera_init_def default_config_def linalg_norm_z)
  from check_collision_outside_noop [OF h] h show ?thesis
    by simp
qed

end
